theory Spec2Isabelle
  imports Complex_Main
begin

section \<open>Python values used by the models\<close>

text \<open>
  A Python float is the not-a-number value, one of the two infinities, or a finite
  number. Only the distinction between these and the test against zero matter here,
  so a finite float carries its numeric value; no float arithmetic is modelled.
\<close>

datatype pyfloat = NaN | PosInf | NegInf | Finite real

text \<open>
  The dynamically typed values that the keyword arguments of the constructors may
  carry: \<open>None\<close>, booleans, integers, floats, strings and datetimes (a datetime is
  abstracted to a count of minutes).
\<close>

datatype pyval =
    PyNone
  | PyBool bool
  | PyInt int
  | PyFloat pyfloat
  | PyStr string
  | PyDatetime int

text \<open>Python truthiness (\<open>bool(v)\<close>, as used by \<open>if v\<close> and \<open>not v\<close>).\<close>

fun truthy :: "pyval \<Rightarrow> bool" where
  "truthy PyNone = False"
| "truthy (PyBool b) = b"
| "truthy (PyInt i) = (i \<noteq> 0)"
| "truthy (PyFloat f) = (f \<noteq> Finite 0)"
| "truthy (PyStr s) = (s \<noteq> [])"
| "truthy (PyDatetime t) = True"

text \<open>Truthiness of an attribute that is a string or \<open>None\<close>.\<close>

fun truthy_str :: "string option \<Rightarrow> bool" where
  "truthy_str None = False"
| "truthy_str (Some s) = (s \<noteq> [])"

text \<open>\<open>isinstance(v, float)\<close> and \<open>isinstance(v, datetime.datetime)\<close>.\<close>

fun isinstance_float :: "pyval \<Rightarrow> bool" where
  "isinstance_float (PyFloat f) = True"
| "isinstance_float v = False"

fun isinstance_datetime :: "pyval \<Rightarrow> bool" where
  "isinstance_datetime (PyDatetime t) = True"
| "isinstance_datetime v = False"

text \<open>\<open>math.isnan\<close> on a stored attribute, and the float comparison \<open>==\<close>, which
  is false as soon as one side is not-a-number.\<close>

fun isnan :: "pyval \<Rightarrow> bool" where
  "isnan (PyFloat NaN) = True"
| "isnan v = False"

fun float_eq :: "pyfloat \<Rightarrow> pyfloat \<Rightarrow> bool" where
  "float_eq NaN y = False"
| "float_eq x NaN = False"
| "float_eq x y = (x = y)"

text \<open>\<open>info.get(key)\<close> and \<open>info.get(key, default)\<close> on the keyword dictionary: a
  keyword that was not supplied is \<open>None\<close> below.\<close>

definition info_get :: "pyval option \<Rightarrow> pyval" where
  "info_get a = (case a of None \<Rightarrow> PyNone | Some v \<Rightarrow> v)"

definition info_get_default :: "pyval option \<Rightarrow> pyval \<Rightarrow> pyval" where
  "info_get_default a d = (case a of None \<Rightarrow> d | Some v \<Rightarrow> v)"

datatype exn = AssertionError string | HelperError string

section \<open>models.py\<close>

type_synonym neo_ref = nat
type_synonym ca_ref = nat

text \<open>
  Objects live in a store and are named by references, since a NearEarthObject holds
  its close approaches and each CloseApproach points back to its NearEarthObject.
  Designations and names are strings or \<open>None\<close>, as the class documents them.
\<close>

record NearEarthObject =
  neo_designation :: "string option"
  neo_name :: "string option"
  neo_diameter :: pyval
  neo_hazardous :: pyval
  neo_approaches :: "ca_ref list"

record CloseApproach =
  ca_designation :: "string option"
  ca_time :: pyval
  ca_distance :: pyval
  ca_velocity :: pyval
  ca_neo :: "neo_ref option"

text \<open>The keyword arguments \<open>**info\<close> of the two constructors.\<close>

record neo_info =
  designation_arg :: "string option"
  name_arg :: "string option"
  diameter_arg :: "pyval option"
  hazardous_arg :: "pyval option"

record ca_info =
  ca_designation_arg :: "string option"
  time_arg :: "pyval option"
  distance_arg :: "pyval option"
  velocity_arg :: "pyval option"
  neo_arg :: "neo_ref option"

text \<open>\<open>NearEarthObject.__init__\<close>: a falsy diameter is replaced by not-a-number, and
  the list of approaches starts empty.\<close>

definition NearEarthObject_init :: "neo_info \<Rightarrow> NearEarthObject" where
  "NearEarthObject_init info =
     \<lparr>neo_designation = designation_arg info,
      neo_name = name_arg info,
      neo_diameter =
        (let d = info_get (diameter_arg info)
         in if \<not> truthy d then PyFloat NaN else d),
      neo_hazardous = info_get (hazardous_arg info),
      neo_approaches = []\<rparr>"

text \<open>
  \<open>CloseApproach.__init__\<close>. The helper \<open>cd_to_datetime\<close> lives in a module that
  is not part of the sources at hand, so it is a parameter; it may raise. The three
  assertions raise \<open>AssertionError\<close> in the order of the source.
\<close>

definition CloseApproach_init ::
    "(pyval \<Rightarrow> exn + pyval) \<Rightarrow> ca_info \<Rightarrow> exn + CloseApproach" where
  "CloseApproach_init cd_to_datetime info =
     (let t0 = info_get (time_arg info);
          parsed =
            (if truthy t0 then
               (case cd_to_datetime t0 of
                  Inl e \<Rightarrow> Inl e
                | Inr t \<Rightarrow>
                    if isinstance_datetime t then Inr t
                    else Inl (AssertionError ''Date must be a datetime object''))
             else Inr t0)
      in case parsed of
           Inl e \<Rightarrow> Inl e
         | Inr t \<Rightarrow>
             (let dist = info_get_default (distance_arg info) (PyFloat NaN);
                  vel = info_get_default (velocity_arg info) (PyFloat NaN)
              in if \<not> isinstance_float dist then
                   Inl (AssertionError ''Distance must be a float object'')
                 else if \<not> isinstance_float vel then
                   Inl (AssertionError ''Velocity must be a float object'')
                 else Inr \<lparr>ca_designation = ca_designation_arg info,
                           ca_time = t,
                           ca_distance = dist,
                           ca_velocity = vel,
                           ca_neo = neo_arg info\<rparr>))"

section \<open>database.py\<close>

record heap =
  neo_objs :: "neo_ref \<Rightarrow> NearEarthObject"
  ca_objs :: "ca_ref \<Rightarrow> CloseApproach"

record NEODatabase =
  db_neos :: "neo_ref list"
  db_approaches :: "ca_ref list"
  db_neo_designations :: "string option \<rightharpoonup> neo_ref"
  db_neo_names :: "string option \<rightharpoonup> neo_ref"

text \<open>
  A dictionary comprehension \<open>{key(x): x for x in xs if cond(x)}\<close>: the entries are
  stored in the order of the list, a later one replacing an earlier one with the
  same key.
\<close>

fun dict_comprehension ::
    "('a \<Rightarrow> 'k) \<Rightarrow> ('a \<Rightarrow> bool) \<Rightarrow> ('k \<rightharpoonup> 'a) \<Rightarrow> 'a list \<Rightarrow> ('k \<rightharpoonup> 'a)" where
  "dict_comprehension key cond m [] = m"
| "dict_comprehension key cond m (x # xs) =
     dict_comprehension key cond (if cond x then m(key x \<mapsto> x) else m) xs"

text \<open>The two assignments of the linking loop: \<open>approach.neo = neo\<close> and
  \<open>neo.approaches.append(approach)\<close>.\<close>

definition set_neo :: "ca_ref \<Rightarrow> neo_ref \<Rightarrow> heap \<Rightarrow> heap" where
  "set_neo c n h = h\<lparr>ca_objs := (ca_objs h)(c := (ca_objs h c)\<lparr>ca_neo := Some n\<rparr>)\<rparr>"

definition append_approach :: "neo_ref \<Rightarrow> ca_ref \<Rightarrow> heap \<Rightarrow> heap" where
  "append_approach n c h =
     h\<lparr>neo_objs := (neo_objs h)
         (n := (neo_objs h n)\<lparr>neo_approaches := neo_approaches (neo_objs h n) @ [c]\<rparr>)\<rparr>"

text \<open>The linking loop of \<open>NEODatabase.__init__\<close>. A NearEarthObject defines neither
  \<open>__bool__\<close> nor \<open>__len__\<close>, so \<open>if neo\<close> fails only when the lookup found nothing.\<close>

fun link :: "(string option \<rightharpoonup> neo_ref) \<Rightarrow> heap \<Rightarrow> ca_ref list \<Rightarrow> heap" where
  "link idx h [] = h"
| "link idx h (c # cs) =
     (case idx (ca_designation (ca_objs h c)) of
        None \<Rightarrow> link idx h cs
      | Some n \<Rightarrow> link idx (append_approach n c (set_neo c n h)) cs)"

definition NEODatabase_init ::
    "heap \<Rightarrow> neo_ref list \<Rightarrow> ca_ref list \<Rightarrow> NEODatabase \<times> heap" where
  "NEODatabase_init h neos approaches =
     (let designations =
            dict_comprehension (\<lambda>n. neo_designation (neo_objs h n)) (\<lambda>n. True)
              Map.empty neos;
          names =
            dict_comprehension (\<lambda>n. neo_name (neo_objs h n))
              (\<lambda>n. truthy_str (neo_name (neo_objs h n))) Map.empty neos
      in (\<lparr>db_neos = neos,
           db_approaches = approaches,
           db_neo_designations = designations,
           db_neo_names = names\<rparr>,
          link designations h approaches))"

definition get_neo_by_designation :: "NEODatabase \<Rightarrow> string option \<Rightarrow> neo_ref option" where
  "get_neo_by_designation db designation = db_neo_designations db designation"

definition get_neo_by_name :: "NEODatabase \<Rightarrow> string option \<Rightarrow> neo_ref option" where
  "get_neo_by_name db name = db_neo_names db name"

text \<open>
  A filter is a predicate on a close approach of the store. \<open>query\<close> is a generator
  function: a call creates a generator object that walks \<open>self._approaches\<close> from
  the start and yields each element; the body never looks at \<open>filters\<close>.
\<close>

type_synonym ca_filter = "heap \<Rightarrow> ca_ref \<Rightarrow> bool"

record generator =
  gen_source :: "ca_ref list"
  gen_pos :: nat

definition query :: "NEODatabase \<Rightarrow> ca_filter list \<Rightarrow> generator" where
  "query db filters = \<lparr>gen_source = db_approaches db, gen_pos = 0\<rparr>"

text \<open>\<open>next(g)\<close>: the next element and the advanced generator, or \<open>None\<close> for
  \<open>StopIteration\<close>.\<close>

definition gen_next :: "generator \<Rightarrow> ca_ref option \<times> generator" where
  "gen_next g =
     (if gen_pos g < length (gen_source g)
      then (Some (gen_source g ! gen_pos g), g\<lparr>gen_pos := Suc (gen_pos g)\<rparr>)
      else (None, g))"

text \<open>\<open>list(g)\<close>: calls \<open>next\<close> until \<open>StopIteration\<close>; the elements collected
  and the exhausted generator.\<close>

function gen_list :: "generator \<Rightarrow> ca_ref list \<times> generator" where
  "gen_list g =
     (case gen_next g of
        (None, g') \<Rightarrow> ([], g')
      | (Some x, g') \<Rightarrow> (case gen_list g' of (xs, g'') \<Rightarrow> (x # xs, g'')))"
  by pat_completeness auto
termination
  by (relation "measure (\<lambda>g. length (gen_source g) - gen_pos g)")
     (auto simp: gen_next_def split: if_splits)

declare gen_list.simps [simp del]

text \<open>
  Generator objects are mutable and have an identity: they live in a store of their
  own, named by their index. A call of \<open>query\<close> allocates a new generator object;
  \<open>next\<close> and \<open>list\<close> update the object they are applied to.
\<close>

type_synonym gen_ref = nat

definition call_query ::
    "NEODatabase \<Rightarrow> ca_filter list \<Rightarrow> generator list \<Rightarrow> gen_ref \<times> generator list" where
  "call_query db filters gs = (length gs, gs @ [query db filters])"

definition call_next :: "gen_ref \<Rightarrow> generator list \<Rightarrow> ca_ref option \<times> generator list" where
  "call_next r gs = (case gen_next (gs ! r) of (x, g') \<Rightarrow> (x, gs[r := g']))"

fun call_next_times :: "nat \<Rightarrow> gen_ref \<Rightarrow> generator list \<Rightarrow> generator list" where
  "call_next_times 0 r gs = gs"
| "call_next_times (Suc k) r gs = call_next_times k r (snd (call_next r gs))"

definition call_list :: "gen_ref \<Rightarrow> generator list \<Rightarrow> ca_ref list \<times> generator list" where
  "call_list r gs = (case gen_list (gs ! r) of (xs, g') \<Rightarrow> (xs, gs[r := g']))"

section \<open>A small data set\<close>

text \<open>
  One NearEarthObject, Eros, and two close approaches: one of Eros and one of an
  object with designation 999 that is not in the collection. References that are not
  used hold an object built from no keyword at all.
\<close>

definition eros :: NearEarthObject where
  "eros = NearEarthObject_init
     \<lparr>designation_arg = Some ''433'', name_arg = Some ''Eros'',
      diameter_arg = Some (PyFloat (Finite 16.84)),
      hazardous_arg = Some (PyBool False)\<rparr>"

definition anonymous_neo :: NearEarthObject where
  "anonymous_neo = NearEarthObject_init
     \<lparr>designation_arg = None, name_arg = None, diameter_arg = None,
      hazardous_arg = None\<rparr>"

definition approach_433 :: CloseApproach where
  "approach_433 =
     \<lparr>ca_designation = Some ''433'', ca_time = PyDatetime 0,
      ca_distance = PyFloat (Finite 0.15), ca_velocity = PyFloat (Finite 5.2),
      ca_neo = None\<rparr>"

definition approach_999 :: CloseApproach where
  "approach_999 =
     \<lparr>ca_designation = Some ''999'', ca_time = PyDatetime 1440,
      ca_distance = PyFloat (Finite 0.02), ca_velocity = PyFloat (Finite 30),
      ca_neo = None\<rparr>"

definition sample_heap :: heap where
  "sample_heap =
     \<lparr>neo_objs = (\<lambda>r. if r = 0 then eros else anonymous_neo),
      ca_objs = (\<lambda>r. if r = 0 then approach_433 else approach_999)\<rparr>"

definition sample_db :: NEODatabase where
  "sample_db = fst (NEODatabase_init sample_heap [0] [0, 1])"

definition sample_linked :: heap where
  "sample_linked = snd (NEODatabase_init sample_heap [0] [0, 1])"

text \<open>A NearEarthObject that was given the empty string as its name.\<close>

definition empty_name_heap :: heap where
  "empty_name_heap =
     \<lparr>neo_objs = (\<lambda>r. NearEarthObject_init
         \<lparr>designation_arg = Some ''1'', name_arg = Some [], diameter_arg = None,
          hazardous_arg = None\<rparr>),
      ca_objs = (\<lambda>r. approach_999)\<rparr>"

text \<open>A filter that no close approach passes.\<close>

definition reject_all :: ca_filter where
  "reject_all h c = False"

text \<open>Modelled from the spec: the module of the filters is not part of the sources
  at hand. This is the range filter "distance at most a bound" of its sections 4.2
  and 8: inclusive, and never passed by a distance that is not-a-number.\<close>

definition distance_at_most :: "real \<Rightarrow> ca_filter" where
  "distance_at_most bound h c =
     (case ca_distance (ca_objs h c) of
        PyFloat (Finite x) \<Rightarrow> x \<le> bound
      | PyFloat NegInf \<Rightarrow> True
      | _ \<Rightarrow> False)"

text \<open>A stand-in for the date parser, for running \<open>CloseApproach_init\<close> on an
  example: it accepts every string.\<close>

definition parse_any :: "pyval \<Rightarrow> exn + pyval" where
  "parse_any v =
     (case v of PyStr s \<Rightarrow> Inr (PyDatetime 0) | _ \<Rightarrow> Inl (HelperError ''not a string''))"

section \<open>Properties\<close>

subsection \<open>Dictionary comprehensions\<close>

lemma dict_comprehension_Some:
  "dict_comprehension key cond m xs k = Some v \<Longrightarrow>
     m k = Some v \<or> (v \<in> set xs \<and> cond v \<and> key v = k)"
  by (induction xs arbitrary: m) (fastforce split: if_splits)+

lemma dict_comprehension_keeps:
  "m k = Some x \<Longrightarrow> (\<forall>y\<in>set xs. cond y \<longrightarrow> key y = k \<longrightarrow> y = x) \<Longrightarrow>
     dict_comprehension key cond m xs k = Some x"
  by (induction xs arbitrary: m) auto

lemma dict_comprehension_finds:
  "x \<in> set xs \<Longrightarrow> cond x \<Longrightarrow> (\<forall>y\<in>set xs. cond y \<longrightarrow> key y = key x \<longrightarrow> y = x) \<Longrightarrow>
     dict_comprehension key cond m xs (key x) = Some x"
proof (induction xs arbitrary: m)
  case Nil
  then show ?case by simp
next
  case (Cons a xs)
  show ?case
  proof (cases "a = x")
    case True
    with Cons.prems show ?thesis
      by (simp add: dict_comprehension_keeps)
  next
    case False
    with Cons.prems have "x \<in> set xs" by simp
    moreover from Cons.prems
    have "\<forall>y\<in>set xs. cond y \<longrightarrow> key y = key x \<longrightarrow> y = x" by simp
    ultimately show ?thesis
      using Cons.IH Cons.prems(2) by simp
  qed
qed

lemma dict_comprehension_None:
  "m k = None \<Longrightarrow> (\<forall>y\<in>set xs. cond y \<longrightarrow> key y \<noteq> k) \<Longrightarrow>
     dict_comprehension key cond m xs k = None"
  by (induction xs arbitrary: m) auto

subsection \<open>The linking loop\<close>

lemma set_neo_simps:
  "neo_objs (set_neo c n h) = neo_objs h"
  "ca_designation (ca_objs (set_neo c n h) c') = ca_designation (ca_objs h c')"
  "ca_time (ca_objs (set_neo c n h) c') = ca_time (ca_objs h c')"
  "ca_distance (ca_objs (set_neo c n h) c') = ca_distance (ca_objs h c')"
  "ca_velocity (ca_objs (set_neo c n h) c') = ca_velocity (ca_objs h c')"
  "ca_neo (ca_objs (set_neo c n h) c') = (if c' = c then Some n else ca_neo (ca_objs h c'))"
  by (simp_all add: set_neo_def)

lemma append_approach_simps:
  "ca_objs (append_approach n c h) = ca_objs h"
  "neo_designation (neo_objs (append_approach n c h) n') = neo_designation (neo_objs h n')"
  "neo_name (neo_objs (append_approach n c h) n') = neo_name (neo_objs h n')"
  "neo_diameter (neo_objs (append_approach n c h) n') = neo_diameter (neo_objs h n')"
  "neo_hazardous (neo_objs (append_approach n c h) n') = neo_hazardous (neo_objs h n')"
  "neo_approaches (neo_objs (append_approach n c h) n') =
     (if n' = n then neo_approaches (neo_objs h n) @ [c] else neo_approaches (neo_objs h n'))"
  by (simp_all add: append_approach_def)

lemma link_ca_fields:
  "ca_designation (ca_objs (link idx h cs) c) = ca_designation (ca_objs h c)"
  "ca_time (ca_objs (link idx h cs) c) = ca_time (ca_objs h c)"
  "ca_distance (ca_objs (link idx h cs) c) = ca_distance (ca_objs h c)"
  "ca_velocity (ca_objs (link idx h cs) c) = ca_velocity (ca_objs h c)"
  by (induction cs arbitrary: h;
      simp add: set_neo_simps append_approach_simps split: option.splits)+

lemma link_neo_fields:
  "neo_designation (neo_objs (link idx h cs) n) = neo_designation (neo_objs h n)"
  "neo_name (neo_objs (link idx h cs) n) = neo_name (neo_objs h n)"
  "neo_diameter (neo_objs (link idx h cs) n) = neo_diameter (neo_objs h n)"
  "neo_hazardous (neo_objs (link idx h cs) n) = neo_hazardous (neo_objs h n)"
  by (induction cs arbitrary: h;
      simp add: set_neo_simps append_approach_simps split: option.splits)+

lemma link_ca_neo:
  "ca_neo (ca_objs (link idx h cs) c) =
     (if c \<in> set cs then
        (case idx (ca_designation (ca_objs h c)) of
           None \<Rightarrow> ca_neo (ca_objs h c)
         | Some n \<Rightarrow> Some n)
      else ca_neo (ca_objs h c))"
  by (induction cs arbitrary: h)
     (auto simp: set_neo_simps append_approach_simps split: option.splits)

lemma link_neo_approaches:
  "neo_approaches (neo_objs (link idx h cs) n) =
     neo_approaches (neo_objs h n) @
       filter (\<lambda>c. idx (ca_designation (ca_objs h c)) = Some n) cs"
  by (induction cs arbitrary: h)
     (auto simp: set_neo_simps append_approach_simps split: option.splits)

lemma count_list_filter:
  "count_list (filter P xs) x = (if P x then count_list xs x else 0)"
  by (induction xs) auto

subsection \<open>Generators\<close>

lemma gen_list_eq:
  "gen_list g =
     (drop (gen_pos g) (gen_source g),
      g\<lparr>gen_pos := max (gen_pos g) (length (gen_source g))\<rparr>)"
proof (induction g rule: gen_list.induct)
  case (1 g)
  show ?case
  proof (cases "gen_pos g < length (gen_source g)")
    case True
    then have "gen_next g = (Some (gen_source g ! gen_pos g), g\<lparr>gen_pos := Suc (gen_pos g)\<rparr>)"
      by (simp add: gen_next_def)
    with 1 True show ?thesis
      by (subst gen_list.simps) (simp add: Cons_nth_drop_Suc max_def)
  next
    case False
    then have "gen_next g = (None, g)"
      by (simp add: gen_next_def)
    with False show ?thesis
      by (subst gen_list.simps) (simp add: max_def)
  qed
qed


subsection \<open>What the constructors establish\<close>

lemma NearEarthObject_init_approaches:
  "neo_approaches (NearEarthObject_init info) = []"
  by (simp add: NearEarthObject_init_def)

lemma CloseApproach_init_neo:
  "CloseApproach_init cd info = Inr ca \<Longrightarrow>
     ca_neo ca = neo_arg info \<and> ca_designation ca = ca_designation_arg info"
  by (auto simp: CloseApproach_init_def Let_def split: if_splits sum.splits)

subsection \<open>The database\<close>

lemma init_components:
  assumes "NEODatabase_init h neos approaches = (db, h')"
  shows "db_neos db = neos" "db_approaches db = approaches"
    "db_neo_designations db =
       dict_comprehension (\<lambda>n. neo_designation (neo_objs h n)) (\<lambda>n. True) Map.empty neos"
    "db_neo_names db =
       dict_comprehension (\<lambda>n. neo_name (neo_objs h n))
         (\<lambda>n. truthy_str (neo_name (neo_objs h n))) Map.empty neos"
    "h' = link (db_neo_designations db) h approaches"
  using assms by (auto simp: NEODatabase_init_def Let_def)

lemma designation_index:
  assumes "inj_on (\<lambda>n. neo_designation (neo_objs h n)) (set neos)"
  shows "dict_comprehension (\<lambda>n. neo_designation (neo_objs h n)) (\<lambda>n. True) Map.empty neos k
           = Some n \<longleftrightarrow> n \<in> set neos \<and> neo_designation (neo_objs h n) = k"
proof
  assume "dict_comprehension (\<lambda>n. neo_designation (neo_objs h n)) (\<lambda>n. True) Map.empty neos k
            = Some n"
  from dict_comprehension_Some [OF this]
  show "n \<in> set neos \<and> neo_designation (neo_objs h n) = k" by simp
next
  assume n: "n \<in> set neos \<and> neo_designation (neo_objs h n) = k"
  have "\<forall>y\<in>set neos. True \<longrightarrow>
          neo_designation (neo_objs h y) = neo_designation (neo_objs h n) \<longrightarrow> y = n"
    using assms n by (auto dest: inj_onD)
  with n show "dict_comprehension (\<lambda>n. neo_designation (neo_objs h n)) (\<lambda>n. True) Map.empty
                 neos k = Some n"
    using dict_comprehension_finds
      [of n neos "\<lambda>n. True" "\<lambda>n. neo_designation (neo_objs h n)" Map.empty]
    by auto
qed

text \<open>
  Claim C2, as amended. Let the designations of the NearEarthObjects handed to the
  constructor be unique. If a close approach \<open>c\<close> of the input has the designation
  of the NearEarthObject \<open>n\<close> of the input, then after the construction of the
  database \<open>c.neo\<close> is \<open>n\<close>, and \<open>n.approaches\<close> has gained \<open>c\<close> once for each
  occurrence of \<open>c\<close> in the collection of close approaches: the loop appends without
  a membership test. So \<open>n.approaches\<close> holds \<open>c\<close> exactly once when \<open>c\<close> occurs
  once in the collection and was not in the list before (the constructor of \<open>n\<close>
  leaves the list empty).
\<close>

theorem init_links_matching_approach:
  assumes "NEODatabase_init h neos approaches = (db, h')"
    and "inj_on (\<lambda>n. neo_designation (neo_objs h n)) (set neos)"
    and "c \<in> set approaches"
    and "n \<in> set neos"
    and "ca_designation (ca_objs h c) = neo_designation (neo_objs h n)"
  shows "ca_neo (ca_objs h' c) = Some n \<and>
         count_list (neo_approaches (neo_objs h' n)) c =
           count_list (neo_approaches (neo_objs h n)) c + count_list approaches c \<and>
         (count_list approaches c = 1 \<longrightarrow> c \<notin> set (neo_approaches (neo_objs h n)) \<longrightarrow>
            count_list (neo_approaches (neo_objs h' n)) c = 1)"
proof -
  let ?idx = "db_neo_designations db"
  have idx: "?idx (ca_designation (ca_objs h c)) = Some n"
    using assms(2,4,5) init_components(3) [OF assms(1)]
    by (simp add: designation_index)
  have h': "h' = link ?idx h approaches"
    by (rule init_components(5) [OF assms(1)])
  have neo: "ca_neo (ca_objs h' c) = Some n"
    using idx assms(3) by (simp add: h' link_ca_neo)
  have cnt: "count_list (neo_approaches (neo_objs h' n)) c =
               count_list (neo_approaches (neo_objs h n)) c + count_list approaches c"
    using idx by (simp add: h' link_neo_approaches count_list_filter)
  have "count_list (neo_approaches (neo_objs h' n)) c = 1"
    if "count_list approaches c = 1" and "c \<notin> set (neo_approaches (neo_objs h n))"
    using that by (simp add: cnt count_list_0_iff)
  with neo cnt show ?thesis by blast
qed

text \<open>
  Claim C2 as stated fails when the collection of close approaches holds the same
  object twice: every condition of the claim is met for the close approach and Eros
  below, whose list was empty, and the list ends up holding the close approach twice.
\<close>

theorem init_links_duplicate_counterexample:
  "inj_on (\<lambda>n. neo_designation (neo_objs sample_heap n)) (set [0]) \<and>
   (0 :: nat) \<in> set [0, 0] \<and>
   (0 :: nat) \<in> set [0] \<and>
   ca_designation (ca_objs sample_heap 0) = neo_designation (neo_objs sample_heap 0) \<and>
   neo_approaches (neo_objs sample_heap 0) = [] \<and>
   neo_approaches (neo_objs (snd (NEODatabase_init sample_heap [0] [0, 0])) 0) = [0, 0] \<and>
   count_list (neo_approaches (neo_objs (snd (NEODatabase_init sample_heap [0] [0, 0])) 0)) 0
     = 2"
  by (simp add: NEODatabase_init_def sample_heap_def eros_def approach_433_def
      NearEarthObject_init_def set_neo_def append_approach_def)

text \<open>
  Claim C3. With unique designations among the NearEarthObjects of the input,
  \<open>get_neo_by_designation(d)\<close> returns \<open>n\<close> exactly when \<open>n\<close> is an object of the
  input whose designation is \<open>d\<close>, and returns \<open>None\<close> exactly when the input has
  no such object. The lookup has no failing branch.
\<close>

theorem get_neo_by_designation_iff:
  assumes "NEODatabase_init h neos approaches = (db, h')"
    and "inj_on (\<lambda>n. neo_designation (neo_objs h n)) (set neos)"
  shows "(get_neo_by_designation db (Some d) = Some n \<longleftrightarrow>
            n \<in> set neos \<and> neo_designation (neo_objs h' n) = Some d) \<and>
         (get_neo_by_designation db (Some d) = None \<longleftrightarrow>
            (\<forall>m\<in>set neos. neo_designation (neo_objs h' m) \<noteq> Some d))"
proof -
  have h': "h' = link (db_neo_designations db) h approaches"
    by (rule init_components(5) [OF assms(1)])
  have iff: "get_neo_by_designation db k = Some m \<longleftrightarrow>
               m \<in> set neos \<and> neo_designation (neo_objs h' m) = k" for k m
    using designation_index [OF assms(2)] init_components(3) [OF assms(1)]
    by (simp add: get_neo_by_designation_def h' link_neo_fields)
  have "get_neo_by_designation db (Some d) = None \<longleftrightarrow>
          (\<forall>m\<in>set neos. neo_designation (neo_objs h' m) \<noteq> Some d)"
  proof (cases "get_neo_by_designation db (Some d)")
    case None
    then have "\<forall>m. \<not> (m \<in> set neos \<and> neo_designation (neo_objs h' m) = Some d)"
      using iff [of "Some d"] by simp
    with None show ?thesis by blast
  next
    case (Some m)
    with iff [of "Some d" m] show ?thesis by auto
  qed
  with iff [of "Some d" n] show ?thesis by simp
qed


lemma sample_init:
  "NEODatabase_init sample_heap [0] [0, 1] = (sample_db, sample_linked)"
  by (simp add: sample_db_def sample_linked_def)

lemma sample_objects:
  "neo_objs sample_heap 0 = eros"
  "ca_objs sample_heap 0 = approach_433"
  "ca_objs sample_heap (Suc 0) = approach_999"
  by (simp_all add: sample_heap_def)

lemma eros_fields:
  "neo_designation eros = Some ''433''"
  "neo_name eros = Some ''Eros''"
  "neo_approaches eros = []"
  by (simp_all add: eros_def NearEarthObject_init_def)

theorem init_links_matching_approach_witness:
  "NEODatabase_init sample_heap [0] [0, 1] = (sample_db, sample_linked) \<and>
   inj_on (\<lambda>n. neo_designation (neo_objs sample_heap n)) (set [0]) \<and>
   (0 :: nat) \<in> set [0, 1] \<and>
   (0 :: nat) \<in> set [0] \<and>
   ca_designation (ca_objs sample_heap 0) = neo_designation (neo_objs sample_heap 0) \<and>
   count_list [0, 1 :: nat] 0 = 1 \<and>
   0 \<notin> set (neo_approaches (neo_objs sample_heap 0)) \<and>
   ca_neo (ca_objs sample_linked 0) = Some 0 \<and>
   count_list (neo_approaches (neo_objs sample_linked 0)) 0 = 1"
proof -
  have a: "inj_on (\<lambda>n. neo_designation (neo_objs sample_heap n)) (set [0])"
    by simp
  have b: "count_list [0, 1 :: nat] 0 = 1" by simp
  have c: "0 \<notin> set (neo_approaches (neo_objs sample_heap 0))"
    by (simp add: sample_objects eros_fields)
  have d: "(0 :: nat) \<in> set [0, 1]" by simp
  have e: "(0 :: nat) \<in> set [0]" by simp
  have f: "ca_designation (ca_objs sample_heap 0) = neo_designation (neo_objs sample_heap 0)"
    by (simp add: sample_objects eros_fields approach_433_def)
  from init_links_matching_approach [OF sample_init a d e f] sample_init a b c d e f
  show ?thesis by blast
qed

theorem get_neo_by_designation_iff_witness:
  "NEODatabase_init sample_heap [0] [0, 1] = (sample_db, sample_linked) \<and>
   inj_on (\<lambda>n. neo_designation (neo_objs sample_heap n)) (set [0]) \<and>
   get_neo_by_designation sample_db (Some ''433'') = Some 0 \<and>
   get_neo_by_designation sample_db (Some ''999'') = None"
proof -
  have a: "inj_on (\<lambda>n. neo_designation (neo_objs sample_heap n)) (set [0])"
    by simp
  have l: "sample_linked = link (db_neo_designations sample_db) sample_heap [0, 1]"
    by (rule init_components(5) [OF sample_init])
  have d: "neo_designation (neo_objs sample_linked 0) = Some ''433''"
    by (subst l) (simp only: link_neo_fields sample_objects eros_fields)
  from get_neo_by_designation_iff [OF sample_init a, of "''433''" 0] d
  have "get_neo_by_designation sample_db (Some ''433'') = Some 0" by simp
  moreover
  from get_neo_by_designation_iff [OF sample_init a, of "''999''" 0] d
  have "get_neo_by_designation sample_db (Some ''999'') = None" by simp
  ultimately show ?thesis using sample_init a by blast
qed

lemma name_index_Some:
  assumes "dict_comprehension (\<lambda>n. neo_name (neo_objs h n))
             (\<lambda>n. truthy_str (neo_name (neo_objs h n))) Map.empty neos k = Some n"
  shows "n \<in> set neos \<and> truthy_str (neo_name (neo_objs h n)) \<and> neo_name (neo_objs h n) = k"
  using dict_comprehension_Some [OF assms] by auto

text \<open>
  Claim C4, as amended. Let the names of the NearEarthObjects of the input be unique
  (among those that have one). For every object \<open>n\<close> of the input whose name is a
  non-empty string \<open>s\<close>, \<open>get_neo_by_name(s)\<close> returns \<open>n\<close>; and an object whose
  name is \<open>None\<close> is returned by no call of \<open>get_neo_by_name\<close>, whatever the
  argument. The index is built under the guard \<open>if neo.name\<close>, which leaves out the
  empty string as well as \<open>None\<close>.
\<close>

theorem get_neo_by_name_nonempty:
  assumes "NEODatabase_init h neos approaches = (db, h')"
    and "\<forall>a\<in>set neos. \<forall>b\<in>set neos.
           truthy_str (neo_name (neo_objs h a)) \<longrightarrow>
           neo_name (neo_objs h a) = neo_name (neo_objs h b) \<longrightarrow> a = b"
  shows "(n \<in> set neos \<longrightarrow> neo_name (neo_objs h' n) = Some s \<longrightarrow> s \<noteq> [] \<longrightarrow>
            get_neo_by_name db (Some s) = Some n) \<and>
         (neo_name (neo_objs h' m) = None \<longrightarrow> get_neo_by_name db arg \<noteq> Some m)"
proof -
  let ?key = "\<lambda>n. neo_name (neo_objs h n)"
  let ?cond = "\<lambda>n. truthy_str (neo_name (neo_objs h n))"
  have h': "h' = link (db_neo_designations db) h approaches"
    by (rule init_components(5) [OF assms(1)])
  have names: "db_neo_names db = dict_comprehension ?key ?cond Map.empty neos"
    by (rule init_components(4) [OF assms(1)])
  have name': "neo_name (neo_objs h' r) = neo_name (neo_objs h r)" for r
    by (simp add: h' link_neo_fields)
  have "get_neo_by_name db (Some s) = Some n"
    if n: "n \<in> set neos" and s: "neo_name (neo_objs h' n) = Some s" and ne: "s \<noteq> []"
  proof -
    from s have key: "?key n = Some s" by (simp add: name')
    with ne have cond: "?cond n" by simp
    have "\<forall>y\<in>set neos. ?cond y \<longrightarrow> ?key y = ?key n \<longrightarrow> y = n"
      using assms(2) n by metis
    from dict_comprehension_finds [of n neos ?cond ?key Map.empty, OF n cond this]
    show ?thesis by (simp add: get_neo_by_name_def names key)
  qed
  moreover have "get_neo_by_name db arg \<noteq> Some m" if "neo_name (neo_objs h' m) = None"
  proof
    assume "get_neo_by_name db arg = Some m"
    then have "dict_comprehension ?key ?cond Map.empty neos arg = Some m"
      by (simp add: get_neo_by_name_def names)
    from name_index_Some [OF this] have "truthy_str (neo_name (neo_objs h m))"
      by blast
    with that show False by (simp add: name')
  qed
  ultimately show ?thesis by blast
qed

text \<open>
  Claim C4 as stated fails for a name that is present but empty: the object below is
  in the input and has the name \<open>''\<close>, and the lookup of \<open>''\<close> finds nothing.
\<close>

theorem get_neo_by_name_counterexample:
  "(0 :: nat) \<in> set [0] \<and>
   neo_name (neo_objs (snd (NEODatabase_init empty_name_heap [0] [])) 0) = Some [] \<and>
   get_neo_by_name (fst (NEODatabase_init empty_name_heap [0] [])) (Some []) = None"
  by (simp add: NEODatabase_init_def get_neo_by_name_def empty_name_heap_def
      NearEarthObject_init_def)

theorem get_neo_by_name_nonempty_witness:
  "NEODatabase_init sample_heap [0] [0, 1] = (sample_db, sample_linked) \<and>
   (0 :: nat) \<in> set [0] \<and>
   neo_name (neo_objs sample_linked 0) = Some ''Eros'' \<and> ''Eros'' \<noteq> [] \<and>
   get_neo_by_name sample_db (Some ''Eros'') = Some 0 \<and>
   neo_name (neo_objs sample_linked 1) = None \<and>
   get_neo_by_name sample_db (Some ''Eros'') \<noteq> Some 1"
proof -
  have u: "\<forall>a\<in>set [0 :: nat]. \<forall>b\<in>set [0].
             truthy_str (neo_name (neo_objs sample_heap a)) \<longrightarrow>
             neo_name (neo_objs sample_heap a) = neo_name (neo_objs sample_heap b) \<longrightarrow> a = b"
    by simp
  have l: "sample_linked = link (db_neo_designations sample_db) sample_heap [0, 1]"
    by (rule init_components(5) [OF sample_init])
  have a: "neo_name (neo_objs sample_linked 0) = Some ''Eros''"
    by (subst l) (simp only: link_neo_fields sample_objects eros_fields)
  have b: "neo_name (neo_objs sample_linked 1) = None"
    by (subst l) (simp add: link_neo_fields sample_heap_def anonymous_neo_def
        NearEarthObject_init_def del: link.simps)
  from get_neo_by_name_nonempty [OF sample_init u, of 0 "''Eros''" 1 "Some ''Eros''"] a b
  have "get_neo_by_name sample_db (Some ''Eros'') = Some 0 \<and>
        get_neo_by_name sample_db (Some ''Eros'') \<noteq> Some 1"
    by simp
  with sample_init a b show ?thesis by simp
qed


lemma query_yields:
  "fst (gen_list (query db filters)) = db_approaches db"
  by (simp add: gen_list_eq query_def)

text \<open>
  Claim C5. \<open>query\<close> without filters yields exactly the collection of close
  approaches that was handed to the constructor: the same objects, as many, in the
  same order.
\<close>

theorem query_no_filters:
  assumes "NEODatabase_init h neos approaches = (db, h')"
  shows "fst (gen_list (query db [])) = approaches \<and>
         length (fst (gen_list (query db []))) = length approaches"
  using init_components(2) [OF assms] by (simp add: query_yields)

theorem query_no_filters_witness:
  "NEODatabase_init sample_heap [0] [0, 1] = (sample_db, sample_linked) \<and>
   fst (gen_list (query sample_db [])) = [0, 1] \<and>
   length (fst (gen_list (query sample_db []))) = 2"
  using query_no_filters [OF sample_init] sample_init by simp

text \<open>
  Claim C6. Let \<open>c\<close> be a close approach of the input whose designation is the
  designation of no NearEarthObject of the input, with \<open>c.neo\<close> absent and \<open>c\<close> in
  no list of approaches before the construction (as the constructors leave them).
  After the construction, which has no failing branch, \<open>c.neo\<close> is still absent,
  \<open>c\<close> is in the list of approaches of no NearEarthObject of the input, and the
  unfiltered \<open>query\<close> yields \<open>c\<close>.
\<close>

theorem init_keeps_unmatched_approach:
  assumes "NEODatabase_init h neos approaches = (db, h')"
    and "c \<in> set approaches"
    and "\<forall>n\<in>set neos. neo_designation (neo_objs h n) \<noteq> ca_designation (ca_objs h c)"
    and "ca_neo (ca_objs h c) = None"
    and "\<forall>n\<in>set neos. c \<notin> set (neo_approaches (neo_objs h n))"
  shows "ca_neo (ca_objs h' c) = None \<and>
         (\<forall>n\<in>set neos. c \<notin> set (neo_approaches (neo_objs h' n))) \<and>
         c \<in> set (fst (gen_list (query db [])))"
proof -
  let ?idx = "db_neo_designations db"
  have h': "h' = link ?idx h approaches"
    by (rule init_components(5) [OF assms(1)])
  have idx: "?idx (ca_designation (ca_objs h c)) = None"
    using assms(3)
    by (simp add: init_components(3) [OF assms(1)] dict_comprehension_None)
  have "ca_neo (ca_objs h' c) = None"
    using idx assms(4) by (simp add: h' link_ca_neo)
  moreover have "c \<notin> set (neo_approaches (neo_objs h' n))" if "n \<in> set neos" for n
    using idx assms(5) that by (auto simp: h' link_neo_approaches)
  moreover have "c \<in> set (fst (gen_list (query db [])))"
    using assms(2) init_components(2) [OF assms(1)] by (simp add: query_yields)
  ultimately show ?thesis by blast
qed

theorem init_keeps_unmatched_approach_witness:
  "NEODatabase_init sample_heap [0] [0, 1] = (sample_db, sample_linked) \<and>
   (1 :: nat) \<in> set [0, 1] \<and>
   neo_designation (neo_objs sample_heap 0) \<noteq> ca_designation (ca_objs sample_heap 1) \<and>
   ca_neo (ca_objs sample_heap 1) = None \<and>
   1 \<notin> set (neo_approaches (neo_objs sample_heap 0)) \<and>
   ca_neo (ca_objs sample_linked 1) = None \<and>
   1 \<notin> set (neo_approaches (neo_objs sample_linked 0)) \<and>
   1 \<in> set (fst (gen_list (query sample_db [])))"
proof -
  have a: "(1 :: nat) \<in> set [0, 1]" by simp
  have b: "neo_designation (neo_objs sample_heap 0) \<noteq> ca_designation (ca_objs sample_heap 1)"
    by (simp add: sample_objects eros_fields approach_999_def)
  have c: "ca_neo (ca_objs sample_heap 1) = None"
    by (simp add: sample_objects approach_999_def)
  have d: "1 \<notin> set (neo_approaches (neo_objs sample_heap 0))"
    by (simp add: sample_objects eros_fields)
  from b have b': "\<forall>n\<in>set [0]. neo_designation (neo_objs sample_heap n)
                     \<noteq> ca_designation (ca_objs sample_heap 1)"
    by simp
  from d have d': "\<forall>n\<in>set [0]. 1 \<notin> set (neo_approaches (neo_objs sample_heap n))"
    by simp
  from init_keeps_unmatched_approach [OF sample_init a b' c d']
  have "ca_neo (ca_objs sample_linked 1) = None \<and>
        1 \<notin> set (neo_approaches (neo_objs sample_linked 0)) \<and>
        1 \<in> set (fst (gen_list (query sample_db [])))"
    by simp
  with sample_init a b c d show ?thesis by blast
qed


text \<open>
  Claim C7. When \<open>CloseApproach.__init__\<close> succeeds, the distance and the velocity
  of the object are floats: not-a-number when the keyword was not supplied, the
  supplied value otherwise. When a supplied distance or velocity is not a float, the
  constructor itself fails.
\<close>

theorem CloseApproach_init_floats:
  "(CloseApproach_init cd info = Inr ca \<longrightarrow>
      isinstance_float (ca_distance ca) \<and> isinstance_float (ca_velocity ca) \<and>
      (distance_arg info = None \<longrightarrow> ca_distance ca = PyFloat NaN) \<and>
      (velocity_arg info = None \<longrightarrow> ca_velocity ca = PyFloat NaN) \<and>
      (\<forall>v. distance_arg info = Some v \<longrightarrow> ca_distance ca = v) \<and>
      (\<forall>v. velocity_arg info = Some v \<longrightarrow> ca_velocity ca = v)) \<and>
   ((\<exists>v. distance_arg info = Some v \<and> \<not> isinstance_float v) \<or>
    (\<exists>v. velocity_arg info = Some v \<and> \<not> isinstance_float v) \<longrightarrow>
      (\<exists>e. CloseApproach_init cd info = Inl e))"
proof -
  let ?dist = "info_get_default (distance_arg info) (PyFloat NaN)"
  let ?vel = "info_get_default (velocity_arg info) (PyFloat NaN)"
  have ok: "isinstance_float ?dist \<and> isinstance_float ?vel \<and>
            ca_distance ca = ?dist \<and> ca_velocity ca = ?vel"
    if "CloseApproach_init cd info = Inr ca"
    using that
    by (auto simp: CloseApproach_init_def Let_def split: if_splits sum.splits)
  have bad: "\<exists>e. CloseApproach_init cd info = Inl e"
    if "\<not> isinstance_float ?dist \<or> \<not> isinstance_float ?vel"
    using that
    by (auto simp: CloseApproach_init_def Let_def split: if_splits sum.splits)
  show ?thesis
  proof (intro conjI impI)
    assume "(\<exists>v. distance_arg info = Some v \<and> \<not> isinstance_float v) \<or>
            (\<exists>v. velocity_arg info = Some v \<and> \<not> isinstance_float v)"
    then have "\<not> isinstance_float ?dist \<or> \<not> isinstance_float ?vel"
      by (auto simp: info_get_default_def)
    then show "\<exists>e. CloseApproach_init cd info = Inl e" by (rule bad)
  qed (use ok in \<open>auto simp: info_get_default_def\<close>)
qed

theorem CloseApproach_init_floats_witness:
  "CloseApproach_init parse_any
     \<lparr>ca_designation_arg = Some ''433'', time_arg = Some (PyStr ''2020-Jan-01 00:00''),
      distance_arg = None, velocity_arg = Some (PyFloat (Finite 5.2)), neo_arg = None\<rparr>
   = Inr \<lparr>ca_designation = Some ''433'', ca_time = PyDatetime 0,
          ca_distance = PyFloat NaN, ca_velocity = PyFloat (Finite 5.2), ca_neo = None\<rparr> \<and>
   CloseApproach_init parse_any
     \<lparr>ca_designation_arg = Some ''433'', time_arg = None,
      distance_arg = Some (PyFloat (Finite 0.15)), velocity_arg = None, neo_arg = None\<rparr>
   = Inr \<lparr>ca_designation = Some ''433'', ca_time = PyNone,
          ca_distance = PyFloat (Finite 0.15), ca_velocity = PyFloat NaN, ca_neo = None\<rparr> \<and>
   \<not> isinstance_float (PyInt 1) \<and>
   (\<exists>e. CloseApproach_init parse_any
     \<lparr>ca_designation_arg = Some ''433'', time_arg = None,
      distance_arg = Some (PyInt 1), velocity_arg = Some (PyFloat (Finite 5.2)),
      neo_arg = None\<rparr> = Inl e) \<and>
   \<not> isinstance_float PyNone \<and>
   (\<exists>e. CloseApproach_init parse_any
     \<lparr>ca_designation_arg = Some ''433'', time_arg = None,
      distance_arg = Some (PyFloat (Finite 0.15)), velocity_arg = Some PyNone,
      neo_arg = None\<rparr> = Inl e)"
proof -
  let ?a = "\<lparr>ca_designation_arg = Some ''433'', time_arg = Some (PyStr ''2020-Jan-01 00:00''),
      distance_arg = None, velocity_arg = Some (PyFloat (Finite 5.2)), neo_arg = None\<rparr>"
  let ?b = "\<lparr>ca_designation_arg = Some ''433'', time_arg = None,
      distance_arg = Some (PyFloat (Finite 0.15)), velocity_arg = None, neo_arg = None\<rparr>"
  let ?c = "\<lparr>ca_designation_arg = Some ''433'', time_arg = None,
      distance_arg = Some (PyInt 1), velocity_arg = Some (PyFloat (Finite 5.2)),
      neo_arg = None\<rparr>"
  let ?d = "\<lparr>ca_designation_arg = Some ''433'', time_arg = None,
      distance_arg = Some (PyFloat (Finite 0.15)), velocity_arg = Some PyNone,
      neo_arg = None\<rparr>"
  have a: "CloseApproach_init parse_any ?a
           = Inr \<lparr>ca_designation = Some ''433'', ca_time = PyDatetime 0,
               ca_distance = PyFloat NaN, ca_velocity = PyFloat (Finite 5.2), ca_neo = None\<rparr>"
    by (simp add: CloseApproach_init_def parse_any_def info_get_def info_get_default_def)
  have b: "CloseApproach_init parse_any ?b
           = Inr \<lparr>ca_designation = Some ''433'', ca_time = PyNone,
               ca_distance = PyFloat (Finite 0.15), ca_velocity = PyFloat NaN, ca_neo = None\<rparr>"
    by (simp add: CloseApproach_init_def parse_any_def info_get_def info_get_default_def)
  have c: "\<exists>e. CloseApproach_init parse_any ?c = Inl e"
    using CloseApproach_init_floats [of parse_any ?c] by simp
  have d: "\<exists>e. CloseApproach_init parse_any ?d = Inl e"
    using CloseApproach_init_floats [of parse_any ?d] by simp
  from a b c d show ?thesis by simp
qed

text \<open>
  Claim C8. A NearEarthObject constructed without a diameter (the keyword missing, or
  \<open>None\<close> as the loader passes for an empty field) stores not-a-number: a value
  that is not zero, differs from every other float, and compares equal to no float.
\<close>

theorem missing_diameter_is_nan:
  assumes "info_get (diameter_arg info) = PyNone"
  shows "neo_diameter (NearEarthObject_init info) = PyFloat NaN \<and>
         isnan (neo_diameter (NearEarthObject_init info)) \<and>
         neo_diameter (NearEarthObject_init info) \<noteq> PyFloat (Finite 0) \<and>
         (\<forall>v. v \<noteq> NaN \<longrightarrow> neo_diameter (NearEarthObject_init info) \<noteq> PyFloat v) \<and>
         (\<forall>f v. neo_diameter (NearEarthObject_init info) = PyFloat f \<longrightarrow> \<not> float_eq f v)"
  using assms by (auto simp: NearEarthObject_init_def)

theorem missing_diameter_is_nan_witness:
  "info_get (diameter_arg
     \<lparr>designation_arg = Some ''2020 AB'', name_arg = None, diameter_arg = None,
      hazardous_arg = Some (PyBool True)\<rparr>) = PyNone \<and>
   neo_diameter (NearEarthObject_init
     \<lparr>designation_arg = Some ''2020 AB'', name_arg = None, diameter_arg = None,
      hazardous_arg = Some (PyBool True)\<rparr>) = PyFloat NaN"
proof -
  have a: "info_get (diameter_arg
     \<lparr>designation_arg = Some ''2020 AB'', name_arg = None, diameter_arg = None,
      hazardous_arg = Some (PyBool True)\<rparr>) = PyNone"
    by (simp add: info_get_def)
  from missing_diameter_is_nan [OF a] a show ?thesis by blast
qed

text \<open>
  Claim C10. A falsy diameter, the float zero included, is replaced by not-a-number
  in the constructor; the stored diameter is always truthy, hence never zero, and the
  construction of a database leaves it as it is.
\<close>

theorem falsy_diameter_replaced:
  "(\<not> truthy (info_get (diameter_arg info)) \<longrightarrow>
      neo_diameter (NearEarthObject_init info) = PyFloat NaN) \<and>
   (diameter_arg info = Some (PyFloat (Finite 0)) \<longrightarrow>
      neo_diameter (NearEarthObject_init info) = PyFloat NaN) \<and>
   truthy (neo_diameter (NearEarthObject_init info)) \<and>
   neo_diameter (NearEarthObject_init info) \<noteq> PyFloat (Finite 0) \<and>
   (neo_objs h n = NearEarthObject_init info \<longrightarrow>
      neo_diameter (neo_objs (snd (NEODatabase_init h neos approaches)) n)
        \<noteq> PyFloat (Finite 0))"
proof -
  have t: "truthy (neo_diameter (NearEarthObject_init info))"
    by (simp add: NearEarthObject_init_def Let_def)
  then have z: "neo_diameter (NearEarthObject_init info) \<noteq> PyFloat (Finite 0)"
    by auto
  have "neo_diameter (neo_objs (snd (NEODatabase_init h neos approaches)) n)
          = neo_diameter (neo_objs h n)"
    by (simp add: NEODatabase_init_def Let_def link_neo_fields)
  with t z show ?thesis
    by (auto simp: NearEarthObject_init_def info_get_def)
qed

theorem falsy_diameter_replaced_witness:
  "\<not> truthy (info_get (diameter_arg
     \<lparr>designation_arg = Some ''1'', name_arg = None,
      diameter_arg = Some (PyFloat (Finite 0)), hazardous_arg = None\<rparr>)) \<and>
   neo_diameter (NearEarthObject_init
     \<lparr>designation_arg = Some ''1'', name_arg = None,
      diameter_arg = Some (PyFloat (Finite 0)), hazardous_arg = None\<rparr>) = PyFloat NaN \<and>
   neo_objs sample_heap 0 = NearEarthObject_init
     \<lparr>designation_arg = Some ''433'', name_arg = Some ''Eros'',
      diameter_arg = Some (PyFloat (Finite 16.84)),
      hazardous_arg = Some (PyBool False)\<rparr> \<and>
   neo_diameter (neo_objs (snd (NEODatabase_init sample_heap [0] [0, 1])) 0)
     \<noteq> PyFloat (Finite 0)"
proof -
  let ?z = "\<lparr>designation_arg = Some ''1'', name_arg = None,
      diameter_arg = Some (PyFloat (Finite 0)), hazardous_arg = None\<rparr>"
  let ?e = "\<lparr>designation_arg = Some ''433'', name_arg = Some ''Eros'',
      diameter_arg = Some (PyFloat (Finite 16.84)),
      hazardous_arg = Some (PyBool False)\<rparr>"
  have a: "\<not> truthy (info_get (diameter_arg ?z))"
    by (simp add: info_get_def)
  have b: "neo_objs sample_heap 0 = NearEarthObject_init ?e"
    by (simp add: sample_heap_def eros_def)
  from falsy_diameter_replaced [of ?z] a
  have c: "neo_diameter (NearEarthObject_init ?z) = PyFloat NaN" by blast
  from falsy_diameter_replaced [of ?e sample_heap 0 "[0]" "[0, 1]"] b
  have d: "neo_diameter (neo_objs (snd (NEODatabase_init sample_heap [0] [0, 1])) 0)
             \<noteq> PyFloat (Finite 0)" by blast
  from a b c d show ?thesis by blast
qed


lemma call_next_length:
  "length (snd (call_next r gs)) = length gs"
  by (simp add: call_next_def split: prod.splits)

lemma call_next_nth:
  "r < length gs \<Longrightarrow>
     snd (call_next r gs) ! r =
       (if gen_pos (gs ! r) < length (gen_source (gs ! r))
        then (gs ! r)\<lparr>gen_pos := Suc (gen_pos (gs ! r))\<rparr> else gs ! r)"
  by (simp add: call_next_def gen_next_def)

lemma call_next_other:
  "r' \<noteq> r \<Longrightarrow> snd (call_next r gs) ! r' = gs ! r'"
  by (simp add: call_next_def split: prod.splits)

lemma call_next_times_length:
  "length (call_next_times k r gs) = length gs"
  by (induction k arbitrary: gs) (simp_all add: call_next_length)

lemma call_next_times_fresh:
  "r < length gs \<Longrightarrow> gen_pos (gs ! r) \<le> length (gen_source (gs ! r)) \<Longrightarrow>
     call_next_times k r gs ! r =
       (gs ! r)\<lparr>gen_pos := min (gen_pos (gs ! r) + k) (length (gen_source (gs ! r)))\<rparr>"
proof (induction k arbitrary: gs)
  case 0
  then show ?case by (simp add: min_def)
next
  case (Suc k)
  let ?gs = "snd (call_next r gs)"
  have len: "r < length ?gs"
    using Suc.prems(1) by (simp add: call_next_length)
  have nth: "?gs ! r =
      (if gen_pos (gs ! r) < length (gen_source (gs ! r))
       then (gs ! r)\<lparr>gen_pos := Suc (gen_pos (gs ! r))\<rparr> else gs ! r)"
    by (rule call_next_nth [OF Suc.prems(1)])
  have le: "gen_pos (?gs ! r) \<le> length (gen_source (?gs ! r))"
    using Suc.prems(2) by (simp add: nth)
  show ?case
    using Suc.IH [OF len le] Suc.prems(2) by (simp add: nth min_def)
qed

lemma call_list_result:
  "fst (call_list r gs) = drop (gen_pos (gs ! r)) (gen_source (gs ! r))"
  by (simp add: call_list_def gen_list_eq)

lemma call_list_other:
  "r' \<noteq> r \<Longrightarrow> snd (call_list r gs) ! r' = gs ! r'"
  by (simp add: call_list_def gen_list_eq)

text \<open>
  Claim C9. Two calls of \<open>query\<close> on one database with equivalent filter
  collections yield the same close approaches, element by element, hence equal
  records. The calls create two different generator objects: after \<open>k\<close> elements
  of the first one have been consumed, the second one still yields the whole
  collection, and consuming it leaves the rest of the first one in place.
\<close>

theorem query_twice:
  assumes "list_all2 (\<lambda>f g. \<forall>h c. f h c = g h c) filters1 filters2"
    and "call_query db filters1 s0 = (g1, s1)"
    and "call_next_times k g1 s1 = s2"
    and "call_query db filters2 s2 = (g2, s3)"
    and "call_list g2 s3 = (ys, s4)"
    and "call_list g1 s4 = (xs, s5)"
  shows "fst (gen_list (query db filters1)) = fst (gen_list (query db filters2)) \<and>
         map (ca_objs h) (fst (gen_list (query db filters1))) =
           map (ca_objs h) (fst (gen_list (query db filters2))) \<and>
         g2 \<noteq> g1 \<and>
         ys = db_approaches db \<and>
         xs = drop k (db_approaches db)"
proof -
  have g1: "g1 = length s0" and s1: "s1 = s0 @ [query db filters1]"
    using assms(2) by (simp_all add: call_query_def)
  have g1_lt: "g1 < length s1" by (simp add: g1 s1)
  have s1_g1: "s1 ! g1 = query db filters1" by (simp add: g1 s1)
  have len2: "length s2 = length s1"
    using assms(3) call_next_times_length [of k g1 s1] by simp
  have s2_g1: "s2 ! g1 = (query db filters1)
                 \<lparr>gen_pos := min k (length (db_approaches db))\<rparr>"
    using call_next_times_fresh [OF g1_lt, of k] assms(3)
    by (simp add: s1_g1 query_def)
  have g2: "g2 = length s2" and s3: "s3 = s2 @ [query db filters2]"
    using assms(4) by (simp_all add: call_query_def)
  have ne: "g2 \<noteq> g1" using g1_lt len2 by (simp add: g2)
  have ys: "ys = db_approaches db"
    using assms(5) call_list_result [of g2 s3] by (simp add: g2 s3 query_def)
  have "s4 ! g1 = s3 ! g1"
    using assms(5) call_list_other [of g1 g2 s3] ne by simp
  also have "\<dots> = s2 ! g1"
    using g1_lt len2 by (simp add: s3 nth_append)
  finally have "s4 ! g1 = (query db filters1)
                  \<lparr>gen_pos := min k (length (db_approaches db))\<rparr>"
    by (simp add: s2_g1)
  then have xs: "xs = drop k (db_approaches db)"
    using assms(6) call_list_result [of g1 s4] by (simp add: query_def min_def)
  show ?thesis using ne ys xs by (simp add: query_yields)
qed

theorem query_twice_witness:
  "list_all2 (\<lambda>f g. \<forall>h c. f h c = g h c) [reject_all] [reject_all] \<and>
   call_query sample_db [reject_all] [] = (0, [query sample_db [reject_all]]) \<and>
   call_query sample_db [reject_all]
     (call_next_times 1 0 [query sample_db [reject_all]])
     = (1, call_next_times 1 0 [query sample_db [reject_all]] @
            [query sample_db [reject_all]]) \<and>
   fst (call_list 1 (call_next_times 1 0 [query sample_db [reject_all]] @
            [query sample_db [reject_all]])) = [0, 1] \<and>
   fst (call_list 0 (snd (call_list 1
          (call_next_times 1 0 [query sample_db [reject_all]] @
            [query sample_db [reject_all]])))) = [1]"
proof -
  let ?q = "query sample_db [reject_all]"
  let ?s2 = "call_next_times 1 0 [?q]"
  let ?s3 = "?s2 @ [?q]"
  have a: "list_all2 (\<lambda>f g. \<forall>h c. f h c = g h c) [reject_all] [reject_all]"
    by simp
  have b: "call_query sample_db [reject_all] [] = (0, [?q])"
    by (simp add: call_query_def)
  have c: "call_next_times 1 0 [?q] = ?s2" by simp
  have d: "call_query sample_db [reject_all] ?s2 = (1, ?s3)"
    by (simp add: call_query_def call_next_length)
  have e: "call_list 1 ?s3 = (fst (call_list 1 ?s3), snd (call_list 1 ?s3))"
    by simp
  have f: "call_list 0 (snd (call_list 1 ?s3))
           = (fst (call_list 0 (snd (call_list 1 ?s3))),
              snd (call_list 0 (snd (call_list 1 ?s3))))"
    by simp
  have ap: "db_approaches sample_db = [0, 1]"
    by (rule init_components(2) [OF sample_init])
  from query_twice [OF a b c d e f] ap
  have "fst (call_list 1 ?s3) = [0, 1] \<and>
        fst (call_list 0 (snd (call_list 1 ?s3))) = [1]"
    by simp
  with a b d show ?thesis by blast
qed

text \<open>
  Claim C1 fails on the code: \<open>query\<close> never looks at its filters. On the sample
  data it yields both close approaches under a filter that rejects every one, under
  the filter on the distance that the first close approach does not pass, and under
  the two filters together, which no close approach passes.
\<close>

theorem query_ignores_filters:
  "fst (gen_list (query sample_db [reject_all])) = [0, 1] \<and>
   \<not> list_all (\<lambda>f. f sample_linked 0) [reject_all] \<and>
   fst (gen_list (query sample_db [distance_at_most 0.05])) = [0, 1] \<and>
   \<not> list_all (\<lambda>f. f sample_linked 0) [distance_at_most 0.05] \<and>
   fst (gen_list (query sample_db [distance_at_most 0.05, reject_all])) = [0, 1]"
proof -
  have ap: "db_approaches sample_db = [0, 1]"
    by (rule init_components(2) [OF sample_init])
  have l: "sample_linked = link (db_neo_designations sample_db) sample_heap [0, 1]"
    by (rule init_components(5) [OF sample_init])
  have "ca_distance (ca_objs sample_linked 0) = PyFloat (Finite 0.15)"
    by (subst l) (simp add: link_ca_fields sample_objects approach_433_def del: link.simps)
  then have "\<not> distance_at_most 0.05 sample_linked 0"
    by (simp add: distance_at_most_def)
  then show ?thesis
    by (simp add: query_yields ap reject_all_def)
qed

end
